theory Spec2Isabelle
  imports Complex_Main "HOL-Library.Log_Nat"
begin

section \<open>Data model\<close>

text \<open>
  The annotated matrix of \<^verbatim>\<open>notebooks/Task1.ipynb\<close>: \<open>perturb_genes\<close> reads the column
  labels (\<^verbatim>\<open>adata.var_names\<close>) and reads and writes the count table (\<^verbatim>\<open>adata.X\<close>), one
  row per cell and one column per gene. The table holds binary floating-point numbers of
  one dtype, \<^verbatim>\<open>float32\<close> in the notebook. A finite float is a rational, and the table is
  kept as rationals together with its dtype; the infinities and NaN have no rational and
  are outside the model.
\<close>

datatype np_dtype = Float32 | Float64

record anndata =
  var_names :: "string list"
  X :: "rat list list"
  dtype :: np_dtype

text \<open>
  Python passes the matrix by reference, and the function either mutates the caller's
  object or a duplicate. The store is a list of objects and a reference is a position in
  it; a fresh object is appended.
\<close>

type_synonym ref = nat
type_synonym heap = "anndata list"

text \<open>
  The arguments as Python sees them: \<open>target\<close> is a \<^verbatim>\<open>str\<close> or a sequence of them,
  \<open>factor\<close> is a \<^verbatim>\<open>float\<close>, an \<^verbatim>\<open>int\<close> or a sequence of numbers.
\<close>

datatype target_arg = TStr string | TSeq "string list"

datatype factor_arg = FFloat rat | FInt int | FSeq "rat list"

text \<open>
  An error message is the f-string of the source, kept as its pieces: literal text, an
  interpolated number, an interpolated list of names.
\<close>

datatype fragment = Lit string | Count nat | Names "string list"

datatype error = TypeError | ValueError "fragment list"

text \<open>
  The source fixes no version of numpy, and the two major versions type the product of
  an array with a single scalar differently. The version is a parameter of the model.
\<close>

datatype numpy = NumPy1 | NumPy2

section \<open>Input handling\<close>

text \<open>\<^verbatim>\<open>if isinstance(target, str): target = [target]\<close>\<close>

fun norm_target :: "target_arg \<Rightarrow> string list" where
  "norm_target (TStr s) = [s]"
| "norm_target (TSeq ts) = ts"

text \<open>
  \<^verbatim>\<open>if isinstance(factor, float): factor = [factor]\<close>. An \<^verbatim>\<open>int\<close> is not a \<^verbatim>\<open>float\<close>: it stays
  a scalar, and the \<^verbatim>\<open>len(factor)\<close> of the next statement raises \<^verbatim>\<open>TypeError\<close>.
\<close>

fun norm_factor :: "factor_arg \<Rightarrow> error + rat list" where
  "norm_factor (FFloat x) = Inr [x]"
| "norm_factor (FInt n) = Inl TypeError"
| "norm_factor (FSeq fs) = Inr fs"

definition length_msg :: "nat \<Rightarrow> nat \<Rightarrow> fragment list" where
  "length_msg n m =
     [Lit ''the number of provided targets must match the number of provided factors, but '',
      Count n, Lit '' and '', Count m, Lit '' values were passed, respectively'']"

definition missing_msg :: "string list \<Rightarrow> string list \<Rightarrow> fragment list" where
  "missing_msg missing_genes example =
     [Lit ''the following provided targets were not found in the index of the provided anndata object: '',
      Names missing_genes, Lit ''. Example names are '', Names example]"

definition negative_msg :: "fragment list" where
  "negative_msg =
     [Lit ''some provided factors were smaller than 0. Please only provide positive numbers.'']"

definition duplicate_msg :: "fragment list" where
  "duplicate_msg = [Lit ''target contains duplicate values.'']"

text \<open>The four checks, in the order of the source; \<^verbatim>\<open>set(target)\<close> is \<open>remdups\<close>.\<close>

definition check_inputs :: "anndata \<Rightarrow> string list \<Rightarrow> rat list \<Rightarrow> error option" where
  "check_inputs adata target factor =
     (if length target \<noteq> length factor
      then Some (ValueError (length_msg (length target) (length factor)))
      else let missing_genes = filter (\<lambda>t. t \<notin> set (var_names adata)) target in
        if missing_genes \<noteq> []
        then Some (ValueError (missing_msg missing_genes (take 3 (var_names adata))))
        else if filter (\<lambda>f. f < 0) factor \<noteq> []
        then Some (ValueError negative_msg)
        else if length target \<noteq> length (remdups target)
        then Some (ValueError duplicate_msg)
        else None)"

section \<open>Floating-point arithmetic\<close>

text \<open>
  \<^verbatim>\<open>np.round\<close>, and the rounding of an exact value to a float: to the nearest integer,
  respectively the nearest float, a tie to the even neighbour.
\<close>

definition round_half_even :: "rat \<Rightarrow> int" where
  "round_half_even x =
     (let n = \<lfloor>x\<rfloor>; d = x - of_int n in
      if d < 1 / 2 then n
      else if 1 / 2 < d then n + 1
      else if even n then n else n + 1)"

text \<open>Significand bits and least normal exponent of the two dtypes (IEEE 754).\<close>

fun prec :: "np_dtype \<Rightarrow> int" where
  "prec Float32 = 24"
| "prec Float64 = 53"

fun emin :: "np_dtype \<Rightarrow> int" where
  "emin Float32 = - 126"
| "emin Float64 = - 1022"

text \<open>The exponent of the leading bit of a positive rational.\<close>

definition floor_log2 :: "rat \<Rightarrow> int" where
  "floor_log2 y =
     (let (a, b) = quotient_of y; d = bitlen a - bitlen b
      in if 2 powi d \<le> y then d else d - 1)"

text \<open>
  The exponent of the last significand bit of the floats around \<open>y\<close>; below the least
  normal exponent the spacing stays that of the subnormal numbers.
\<close>

definition quantum :: "np_dtype \<Rightarrow> rat \<Rightarrow> int" where
  "quantum d y = max (floor_log2 \<bar>y\<bar>) (emin d) - prec d + 1"

text \<open>
  The float of dtype \<open>d\<close> nearest to \<open>y\<close>: what an arithmetic operation with exact result
  \<open>y\<close> returns, and what storing \<open>y\<close> into an array of that dtype keeps. A result
  beyond the largest finite float is an infinity in numpy; the model has none, and the
  statements that depend on the value of a product bound it by \<open>in_range\<close>.
\<close>

definition fl :: "np_dtype \<Rightarrow> rat \<Rightarrow> rat" where
  "fl d y =
     (if y = 0 then 0
      else of_int (round_half_even (y / 2 powi quantum d y)) * 2 powi quantum d y)"


section \<open>The perturbation\<close>

text \<open>Position of a label in the index.\<close>

fun index_of :: "'a list \<Rightarrow> 'a \<Rightarrow> nat" where
  "index_of [] x = 0"
| "index_of (y # ys) x = (if x = y then 0 else Suc (index_of ys x))"

text \<open>\<^verbatim>\<open>adata[:, target].X\<close>: all rows, the targeted columns in the order of \<open>target\<close>.\<close>

definition select_cols :: "nat list \<Rightarrow> rat list list \<Rightarrow> rat list list" where
  "select_cols vidx M = map (\<lambda>row. map (\<lambda>j. row ! j) vidx) M"

text \<open>
  One entry times its factor, as \<^verbatim>\<open>.multiply(factor)\<close> computes it. The factors arrive as
  a \<^verbatim>\<open>float64\<close> array, and the product of the data with an array of factors is taken in
  \<^verbatim>\<open>float64\<close>. A single factor is handed on as a scalar: numpy 2 still multiplies in
  \<^verbatim>\<open>float64\<close>, numpy 1 converts the scalar to the dtype of the data and multiplies there.
  \<open>n\<close> is the number of factors.
\<close>

definition scale :: "numpy \<Rightarrow> np_dtype \<Rightarrow> nat \<Rightarrow> rat \<Rightarrow> rat \<Rightarrow> rat" where
  "scale np d n x f =
     (if np = NumPy1 \<and> n = 1 then fl d (x * fl d f) else fl Float64 (x * f))"

text \<open>\<^verbatim>\<open>.multiply(factor)\<close>: the factor list is broadcast as a row vector.\<close>

definition multiply :: "numpy \<Rightarrow> np_dtype \<Rightarrow> rat list list \<Rightarrow> rat list \<Rightarrow> rat list list" where
  "multiply np d M factor = map (\<lambda>row. map2 (scale np d (length factor)) row factor) M"

text \<open>\<^verbatim>\<open>np.round\<close> on every entry.\<close>

definition np_round :: "rat list list \<Rightarrow> rat list list" where
  "np_round M = map (map (\<lambda>v. of_int (round_half_even v))) M"

text \<open>
  \<^verbatim>\<open>adata[:, target].X = value\<close>: the view writes through to its parent, column
  \<open>vidx ! k\<close> of every row receiving column \<open>k\<close> of the value, converted to the dtype
  of the table.
\<close>

definition write_row :: "nat list \<Rightarrow> rat list \<Rightarrow> rat list \<Rightarrow> rat list" where
  "write_row vidx new row = fold (\<lambda>(j, v) r. r[j := v]) (zip vidx new) row"

definition assign_cols ::
  "np_dtype \<Rightarrow> nat list \<Rightarrow> rat list list \<Rightarrow> rat list list \<Rightarrow> rat list list" where
  "assign_cols d vidx val M = map2 (\<lambda>row new. write_row vidx (map (fl d) new) row) M val"

text \<open>
  The three statements after the checks. They run only on a request that passed the
  checks, so every target has a position in the index and, on a matrix whose rows are as
  long as the index, every read and write is in range. The sparse representation is not
  modelled: the table is its dense content.
\<close>

definition perturb_counts :: "numpy \<Rightarrow> anndata \<Rightarrow> string list \<Rightarrow> rat list \<Rightarrow> anndata" where
  "perturb_counts np adata target factor =
     (let vidx = map (index_of (var_names adata)) target;
          perturbed_counts = multiply np (dtype adata) (select_cols vidx (X adata)) factor;
          perturbed_counts = np_round perturbed_counts
      in adata\<lparr>X := assign_cols (dtype adata) vidx perturbed_counts (X adata)\<rparr>)"

text \<open>
  \<open>perturb_genes\<close>. The result is the store after the call and either the exception
  raised or the value returned (\<open>None\<close>, or the reference of the duplicate).
\<close>

definition perturb_genes ::
  "numpy \<Rightarrow> heap \<Rightarrow> ref \<Rightarrow> target_arg \<Rightarrow> factor_arg \<Rightarrow> bool \<Rightarrow> heap \<times> (error + ref option)" where
  "perturb_genes np h adata target factor copy =
     (let target = norm_target target in
      case norm_factor factor of
        Inl e \<Rightarrow> (h, Inl e)
      | Inr factor \<Rightarrow>
          (case check_inputs (h ! adata) target factor of
             Some e \<Rightarrow> (h, Inl e)
           | None \<Rightarrow>
               let (h1, work) = (if copy then (h @ [h ! adata], length h) else (h, adata));
                   h2 = h1[work := perturb_counts np (h1 ! work) target factor]
               in (h2, Inr (if copy then Some work else None))))"

section \<open>Well-formed inputs and observations\<close>

text \<open>
  A matrix as the data model has it: unique column labels, every row as long as the
  index, every entry a float of the dtype of the table.
\<close>

definition wf_matrix :: "anndata \<Rightarrow> bool" where
  "wf_matrix adata \<longleftrightarrow>
     distinct (var_names adata) \<and>
     list_all (\<lambda>row. length row = length (var_names adata)) (X adata) \<and>
     list_all (list_all (\<lambda>v. fl (dtype adata) v = v)) (X adata)"

text \<open>
  The matrix a successful call worked on: the caller's object when nothing is returned,
  the returned duplicate otherwise.
\<close>

definition worked_on :: "heap \<times> (error + ref option) \<Rightarrow> ref \<Rightarrow> anndata option" where
  "worked_on res adata =
     (case snd res of
        Inl e \<Rightarrow> None
      | Inr None \<Rightarrow> Some (fst res ! adata)
      | Inr (Some r) \<Rightarrow> Some (fst res ! r))"

text \<open>
  The value that ends up in a targeted entry: the product, rounded by \<^verbatim>\<open>np.round\<close>,
  converted to the dtype of the table.
\<close>

definition stored :: "numpy \<Rightarrow> np_dtype \<Rightarrow> nat \<Rightarrow> rat \<Rightarrow> rat \<Rightarrow> rat" where
  "stored np d n x f = fl d (of_int (round_half_even (scale np d n x f)))"


text \<open>
  The matrix of the notebook's test cells, restricted to the two genes and the six rows
  it prints.
\<close>

definition example_adata :: anndata where
  "example_adata =
     \<lparr>var_names = [''ENSG00000171532'', ''ENSG00000078018''],
      X = [[1, 13], [0, 26], [0, 68], [0, 0], [0, 0], [0, 1]],
      dtype = Float32\<rparr>"


section \<open>Rounding\<close>

lemma round_half_even_of_int: "round_half_even (of_int n) = n"
  by (simp add: round_half_even_def)

lemma round_half_even_zero: "round_half_even 0 = 0"
  by (simp add: round_half_even_def)

lemma round_half_even_nonneg: "0 \<le> x \<Longrightarrow> 0 \<le> round_half_even x"
  by (auto simp: round_half_even_def Let_def)



section \<open>Floats\<close>


lemma fl_zero: "fl d 0 = 0"
  by (simp add: fl_def)

lemma fl_nonneg: "0 \<le> y \<Longrightarrow> 0 \<le> fl d y"
  by (simp add: fl_def round_half_even_nonneg)

lemma fl_exactI:
  assumes "y / 2 powi quantum d y = of_int m"
  shows "fl d y = y"
proof (cases "y = 0")
  case True
  then show ?thesis by (simp add: fl_def)
next
  case False
  have "y = of_int m * 2 powi quantum d y"
    using assms by (simp add: field_simps)
  then show ?thesis
    using False assms by (simp add: fl_def round_half_even_of_int)
qed

lemma fl_exactD:
  assumes "fl d y = y"
  shows "\<exists>m. y = of_int m * 2 powi quantum d y"
proof (cases "y = 0")
  case True
  then have "y = of_int 0 * 2 powi quantum d y" by simp
  then show ?thesis by blast
next
  case False
  with assms show ?thesis
    by (metis fl_def)
qed

lemma quantum_Float64_le: "quantum Float64 y \<le> quantum d y"
  by (cases d) (auto simp: quantum_def max_def)

lemma fl_widen:
  assumes "fl d y = y"
  shows "fl Float64 y = y"
proof -
  obtain m where m: "y = of_int m * 2 powi quantum d y"
    using fl_exactD [OF assms] by blast
  let ?k = "quantum d y - quantum Float64 y"
  have k: "0 \<le> ?k"
    using quantum_Float64_le [of y d] by simp
  have "y / 2 powi quantum Float64 y = of_int m * (2 powi quantum d y / 2 powi quantum Float64 y)"
    using m by simp
  also have "\<dots> = of_int m * 2 powi ?k"
    by (simp add: power_int_diff)
  also have "\<dots> = of_int (m * 2 ^ nat ?k)"
    using k by (simp add: power_int_def)
  finally show ?thesis
    by (rule fl_exactI)
qed

lemma fl_one: "fl d 1 = 1"
proof -
  have "fl Float32 1 = 1" and "fl Float64 1 = 1"
    by code_simp+
  then show ?thesis
    by (cases d) simp_all
qed




section \<open>Column lookup and write-back\<close>

lemma index_of_less: "x \<in> set xs \<Longrightarrow> index_of xs x < length xs"
  by (induction xs) auto

lemma nth_index_of: "x \<in> set xs \<Longrightarrow> xs ! index_of xs x = x"
  by (induction xs) auto

lemma index_of_nth: "distinct xs \<Longrightarrow> j < length xs \<Longrightarrow> index_of xs (xs ! j) = j"
proof (induction xs arbitrary: j)
  case Nil
  then show ?case by simp
next
  case (Cons y ys)
  then show ?case by (cases j) auto
qed

lemma distinct_map_index_of:
  assumes "distinct ts" and "set ts \<subseteq> set xs"
  shows "distinct (map (index_of xs) ts)"
proof -
  have "inj_on (index_of xs) (set ts)"
  proof (rule inj_onI)
    fix a b
    assume "a \<in> set ts" "b \<in> set ts" "index_of xs a = index_of xs b"
    then show "a = b"
      using assms(2) nth_index_of [of a xs] nth_index_of [of b xs] by auto
  qed
  with assms(1) show ?thesis by (simp add: distinct_map)
qed

lemma length_write_row: "length (write_row vidx new row) = length row"
  unfolding write_row_def
  by (induction vidx arbitrary: new row) (auto simp: zip_Cons1 split: list.splits)

lemma write_row_other: "j \<notin> set vidx \<Longrightarrow> write_row vidx new row ! j = row ! j"
  unfolding write_row_def
proof (induction vidx arbitrary: new row)
  case Nil
  then show ?case by simp
next
  case (Cons a vidx)
  then show ?case by (cases new) auto
qed

lemma write_row_hit:
  "distinct vidx \<Longrightarrow> length new = length vidx \<Longrightarrow> k < length vidx \<Longrightarrow>
   vidx ! k < length row \<Longrightarrow> write_row vidx new row ! (vidx ! k) = new ! k"
proof (induction vidx arbitrary: new row k)
  case Nil
  then show ?case by simp
next
  case (Cons a vidx)
  then obtain v vs where new: "new = v # vs" by (cases new) auto
  have step: "write_row (a # vidx) (v # vs) row = write_row vidx vs (row[a := v])"
    by (simp add: write_row_def)
  show ?case
  proof (cases k)
    case 0
    with Cons.prems show ?thesis
      by (simp add: step write_row_other new)
  next
    case (Suc k')
    with Cons.prems new show ?thesis
      by (simp add: step Cons.IH)
  qed
qed

section \<open>The stored value\<close>

lemma stored_zero: "stored np d n x 0 = 0"
  by (simp add: stored_def scale_def fl_zero round_half_even_zero)

lemma stored_nonneg: "0 \<le> x \<Longrightarrow> 0 \<le> f \<Longrightarrow> 0 \<le> stored np d n x f"
  by (simp add: stored_def scale_def fl_nonneg round_half_even_nonneg)

lemma stored_one:
  assumes "fl d x = x" and "x \<in> \<int>"
  shows "stored np d n x 1 = x"
proof -
  have "scale np d n x 1 = x"
    using assms(1) fl_widen [OF assms(1)] by (simp add: scale_def fl_one)
  moreover obtain m where "x = of_int m"
    using assms(2) by (auto elim: Ints_cases)
  ultimately show ?thesis
    using assms(1) by (simp add: stored_def round_half_even_of_int)
qed

section \<open>What the perturbation writes\<close>

lemma var_names_perturb_counts [simp]:
  "var_names (perturb_counts np adata target factor) = var_names adata"
  by (simp add: perturb_counts_def Let_def)

lemma dtype_perturb_counts [simp]:
  "dtype (perturb_counts np adata target factor) = dtype adata"
  by (simp add: perturb_counts_def Let_def)

lemma length_X_perturb_counts [simp]:
  "length (X (perturb_counts np adata target factor)) = length (X adata)"
  by (simp add: perturb_counts_def Let_def assign_cols_def np_round_def multiply_def
      select_cols_def)

lemma row_perturb_counts:
  assumes "i < length (X adata)"
  shows "X (perturb_counts np adata target factor) ! i =
         write_row (map (index_of (var_names adata)) target)
           (map (fl (dtype adata))
              (map (\<lambda>v. of_int (round_half_even v))
                 (map2 (scale np (dtype adata) (length factor))
                    (map (\<lambda>j. X adata ! i ! j) (map (index_of (var_names adata)) target))
                    factor)))
           (X adata ! i)"
  using assms
  by (simp add: perturb_counts_def Let_def assign_cols_def np_round_def multiply_def
      select_cols_def)

lemma length_row_perturb_counts:
  "i < length (X adata) \<Longrightarrow>
   length (X (perturb_counts np adata target factor) ! i) = length (X adata ! i)"
  by (simp add: row_perturb_counts length_write_row)

lemma wf_matrix_row:
  "wf_matrix adata \<Longrightarrow> i < length (X adata) \<Longrightarrow> length (X adata ! i) = length (var_names adata)"
  by (simp add: wf_matrix_def list_all_length)

lemma wf_matrix_entry:
  "wf_matrix adata \<Longrightarrow> i < length (X adata) \<Longrightarrow> j < length (X adata ! i) \<Longrightarrow>
   fl (dtype adata) (X adata ! i ! j) = X adata ! i ! j"
  by (simp add: wf_matrix_def list_all_length)

lemma perturb_counts_target:
  assumes wf: "wf_matrix adata"
    and len: "length target = length factor"
    and sub: "set target \<subseteq> set (var_names adata)"
    and dist: "distinct target"
    and i: "i < length (X adata)"
    and k: "k < length target"
  shows "X (perturb_counts np adata target factor) ! i ! index_of (var_names adata) (target ! k) =
         stored np (dtype adata) (length factor)
           (X adata ! i ! index_of (var_names adata) (target ! k)) (factor ! k)"
proof -
  let ?vidx = "map (index_of (var_names adata)) target"
  let ?new = "map (fl (dtype adata))
                (map (\<lambda>v. rat_of_int (round_half_even v))
                   (map2 (scale np (dtype adata) (length factor))
                      (map (\<lambda>j. X adata ! i ! j) ?vidx) factor))"
  have d: "distinct ?vidx"
    using dist sub by (rule distinct_map_index_of)
  have l: "length ?new = length ?vidx"
    using len by simp
  have "target ! k \<in> set (var_names adata)"
    using sub k by (auto simp: subset_iff)
  then have b: "?vidx ! k < length (X adata ! i)"
    using wf i k by (simp add: wf_matrix_row index_of_less)
  have "write_row ?vidx ?new (X adata ! i) ! (?vidx ! k) = ?new ! k"
    using d l _ b by (rule write_row_hit) (simp add: k)
  moreover have "?new ! k =
      stored np (dtype adata) (length factor)
        (X adata ! i ! index_of (var_names adata) (target ! k)) (factor ! k)"
    using k len by (simp add: stored_def)
  ultimately show ?thesis
    using i k by (simp add: row_perturb_counts)
qed

lemma perturb_counts_other:
  assumes sub: "set target \<subseteq> set (var_names adata)"
    and i: "i < length (X adata)"
    and j: "var_names adata ! j \<notin> set target"
  shows "X (perturb_counts np adata target factor) ! i ! j = X adata ! i ! j"
proof -
  have "j \<notin> set (map (index_of (var_names adata)) target)"
  proof
    assume "j \<in> set (map (index_of (var_names adata)) target)"
    then obtain t where t: "t \<in> set target" "j = index_of (var_names adata) t"
      by auto
    with sub have "var_names adata ! j = t"
      by (auto simp: nth_index_of)
    with t j show False by simp
  qed
  then show ?thesis
    using i by (simp add: row_perturb_counts write_row_other)
qed

lemma perturb_counts_entry:
  assumes wf: "wf_matrix adata"
    and len: "length target = length factor"
    and sub: "set target \<subseteq> set (var_names adata)"
    and dist: "distinct target"
    and i: "i < length (X adata)"
    and j: "j < length (var_names adata)"
  shows "X (perturb_counts np adata target factor) ! i ! j =
         (if var_names adata ! j \<in> set target
          then stored np (dtype adata) (length factor) (X adata ! i ! j)
                 (factor ! index_of target (var_names adata ! j))
          else X adata ! i ! j)"
proof (cases "var_names adata ! j \<in> set target")
  case True
  let ?k = "index_of target (var_names adata ! j)"
  have k: "?k < length target" and t: "target ! ?k = var_names adata ! j"
    using True by (simp_all add: index_of_less nth_index_of)
  have "index_of (var_names adata) (target ! ?k) = j"
    using wf j t by (simp add: wf_matrix_def index_of_nth)
  with perturb_counts_target [OF wf len sub dist i k] True show ?thesis
    by simp
next
  case False
  with perturb_counts_other [OF sub i] show ?thesis by simp
qed



lemma perturb_counts_identity:
  assumes wf: "wf_matrix adata"
    and len: "length target = length factor"
    and sub: "set target \<subseteq> set (var_names adata)"
    and dist: "distinct target"
    and one: "\<forall>f \<in> set factor. f = 1"
    and ints: "\<forall>row \<in> set (X adata). \<forall>v \<in> set row. v \<in> \<int>"
  shows "perturb_counts np adata target factor = adata"
proof -
  let ?res = "perturb_counts np adata target factor"
  have "X ?res ! i ! j = X adata ! i ! j"
    if i: "i < length (X adata)" and j: "j < length (X adata ! i)" for i j
  proof -
    have j': "j < length (var_names adata)"
      using i j wf by (simp add: wf_matrix_row)
    have int: "X adata ! i ! j \<in> \<int>"
      using ints i j by (meson nth_mem)
    have rep: "fl (dtype adata) (X adata ! i ! j) = X adata ! i ! j"
      using wf i j by (rule wf_matrix_entry)
    show ?thesis
    proof (cases "var_names adata ! j \<in> set target")
      case True
      then have "index_of target (var_names adata ! j) < length factor"
        using len index_of_less [of "var_names adata ! j" target] by simp
      then have "factor ! index_of target (var_names adata ! j) = 1"
        using one by (meson nth_mem)
      with True show ?thesis
        by (simp add: perturb_counts_entry [OF wf len sub dist i j'] stored_one [OF rep int])
    next
      case False
      then show ?thesis
        by (simp add: perturb_counts_entry [OF wf len sub dist i j'])
    qed
  qed
  then have "X ?res ! i = X adata ! i" if "i < length (X adata)" for i
    using that by (intro nth_equalityI) (simp_all add: length_row_perturb_counts)
  then have "X ?res = X adata"
    by (intro nth_equalityI) simp_all
  moreover have "?res = adata\<lparr>X := X ?res\<rparr>"
    by (simp add: perturb_counts_def Let_def)
  ultimately show ?thesis
    by simp
qed

section \<open>Outcome of a call\<close>

lemma length_remdups_distinct: "length xs = length (remdups xs) \<longleftrightarrow> distinct xs"
  by (metis length_remdups_eq remdups_id_iff_distinct)

lemma check_inputs_None:
  "check_inputs adata target factor = None \<longleftrightarrow>
     length target = length factor \<and> set target \<subseteq> set (var_names adata) \<and>
     (\<forall>f \<in> set factor. 0 \<le> f) \<and> distinct target"
proof (cases "length target = length factor")
  case True
  have "length factor = length (remdups target) \<longleftrightarrow> distinct target"
    using length_remdups_distinct [of target] True by simp
  with True show ?thesis
    by (auto simp: check_inputs_def Let_def filter_empty_conv not_less)
next
  case False
  then show ?thesis by (simp add: check_inputs_def)
qed

lemma perturb_genes_valid:
  assumes "norm_factor factor = Inr fs"
    and "check_inputs (h ! adata) (norm_target target) fs = None"
  shows "perturb_genes np h adata target factor copy =
         (if copy
          then (h @ [perturb_counts np (h ! adata) (norm_target target) fs], Inr (Some (length h)))
          else (h[adata := perturb_counts np (h ! adata) (norm_target target) fs], Inr None))"
  using assms by (simp add: perturb_genes_def Let_def)

lemma worked_on_valid:
  assumes "norm_factor factor = Inr fs"
    and "check_inputs (h ! adata) (norm_target target) fs = None"
    and "adata < length h"
  shows "worked_on (perturb_genes np h adata target factor copy) adata =
         Some (perturb_counts np (h ! adata) (norm_target target) fs)"
  using assms by (simp add: perturb_genes_valid worked_on_def)

lemma perturb_genes_invalid:
  assumes "norm_factor factor = Inr fs"
    and "check_inputs (h ! adata) (norm_target target) fs = Some e"
  shows "perturb_genes np h adata target factor copy = (h, Inl e)"
  using assms by (simp add: perturb_genes_def Let_def)

lemma check_inputs_ValueError:
  "check_inputs adata target factor = Some e \<Longrightarrow> \<exists>msg. e = ValueError msg"
  by (auto simp: check_inputs_def Let_def split: if_splits)

lemma check_inputs_length:
  "length target \<noteq> length factor \<Longrightarrow>
   check_inputs adata target factor =
     Some (ValueError (length_msg (length target) (length factor)))"
  by (simp add: check_inputs_def)

lemma check_inputs_missing:
  "length target = length factor \<Longrightarrow> \<not> set target \<subseteq> set (var_names adata) \<Longrightarrow>
   check_inputs adata target factor =
     Some (ValueError (missing_msg (filter (\<lambda>t. t \<notin> set (var_names adata)) target)
                         (take 3 (var_names adata))))"
  by (auto simp: check_inputs_def Let_def filter_empty_conv)

lemma check_inputs_negative:
  "length target = length factor \<Longrightarrow> set target \<subseteq> set (var_names adata) \<Longrightarrow>
   \<exists>f \<in> set factor. f < 0 \<Longrightarrow>
   check_inputs adata target factor = Some (ValueError negative_msg)"
  by (auto simp: check_inputs_def Let_def filter_empty_conv)

lemma check_inputs_duplicate:
  assumes "length target = length factor" and "set target \<subseteq> set (var_names adata)"
    and "\<forall>f \<in> set factor. 0 \<le> f" and "\<not> distinct target"
  shows "check_inputs adata target factor = Some (ValueError duplicate_msg)"
proof -
  have "length factor \<noteq> length (remdups target)"
    using length_remdups_distinct [of target] assms(1,4) by simp
  then show ?thesis
    using assms(1-3) by (auto simp: check_inputs_def Let_def filter_empty_conv not_less)
qed

lemma msgs_distinct:
  "distinct [length_msg n m, missing_msg ms ex, negative_msg, duplicate_msg]"
  by (simp add: length_msg_def missing_msg_def negative_msg_def duplicate_msg_def)

lemma wf_example: "wf_matrix example_adata"
  by code_simp

section \<open>Scaling and rounding of the targeted columns\<close>




section \<open>In place or on a copy\<close>



section \<open>Columns that are not targeted\<close>

text \<open>
  C3. For a valid request on a well-formed matrix, an entry in a column whose label is
  not among the targets is the same number after the call as before, in every row; the
  column labels and the shape of the table are unchanged as well. This holds in place and
  on the copy, under either numpy.
\<close>

theorem perturb_genes_other_columns_unchanged:
  assumes "adata < length h"
    and "norm_target targ = target" and "norm_factor farg = Inr factor"
    and "length target = length factor"
    and "set target \<subseteq> set (var_names (h ! adata))"
    and "\<forall>f \<in> set factor. 0 \<le> f"
    and "distinct target"
    and "i < length (X (h ! adata))"
    and "j < length (var_names (h ! adata))"
    and "var_names (h ! adata) ! j \<notin> set target"
    and "wf_matrix (h ! adata)"
  shows "\<exists>res. worked_on (perturb_genes np h adata targ farg copy) adata = Some res \<and>
           var_names res = var_names (h ! adata) \<and>
           length (X res) = length (X (h ! adata)) \<and>
           length (X res ! i) = length (X (h ! adata) ! i) \<and>
           X res ! i ! j = X (h ! adata) ! i ! j"
proof -
  have ok: "check_inputs (h ! adata) (norm_target targ) factor = None"
    using assms(2,4-7) by (simp add: check_inputs_None)
  have "worked_on (perturb_genes np h adata targ farg copy) adata =
        Some (perturb_counts np (h ! adata) target factor)"
    using worked_on_valid [OF assms(3) ok assms(1)] assms(2) by simp
  moreover have "X (perturb_counts np (h ! adata) target factor) ! i ! j = X (h ! adata) ! i ! j"
    using assms(5,8,10) by (rule perturb_counts_other)
  ultimately show ?thesis
    using assms(8) by (simp add: length_row_perturb_counts)
qed

theorem perturb_genes_other_columns_unchanged_witness:
  "\<exists>res. worked_on (perturb_genes NumPy2 [example_adata] 0 (TStr ''ENSG00000078018'') (FFloat (1 / 2))
             False) 0 = Some res \<and>
         var_names example_adata ! 0 = ''ENSG00000171532'' \<and>
         X res ! 0 ! 0 = 1 \<and> X example_adata ! 0 ! 0 = 1"
proof -
  have "\<exists>res. worked_on (perturb_genes NumPy2 [example_adata] 0 (TStr ''ENSG00000078018'')
                 (FFloat (1 / 2)) False) 0 = Some res \<and>
           var_names res = var_names ([example_adata] ! 0) \<and>
           length (X res) = length (X ([example_adata] ! 0)) \<and>
           length (X res ! 0) = length (X ([example_adata] ! 0) ! 0) \<and>
           X res ! 0 ! 0 = X ([example_adata] ! 0) ! 0 ! 0"
    by (rule perturb_genes_other_columns_unchanged [where target = "[''ENSG00000078018'']"
          and factor = "[1 / 2]"])
       (simp_all add: wf_example, simp_all add: example_adata_def)
  then show ?thesis
    by (auto simp: example_adata_def)
qed

section \<open>Failed validation\<close>

text \<open>
  C4. When the numbers of targets and factors differ, or a target is not a column label,
  or a factor is negative, or a target occurs twice, the call raises a \<^verbatim>\<open>ValueError\<close>
  and the store after the call is the store before it, whatever the copy flag: no object
  is changed and none is allocated.
\<close>

theorem perturb_genes_invalid_leaves_store:
  assumes "norm_target targ = target" and "norm_factor farg = Inr factor"
    and "length target \<noteq> length factor \<or>
         \<not> set target \<subseteq> set (var_names (h ! adata)) \<or>
         (\<exists>f \<in> set factor. f < 0) \<or>
         \<not> distinct target"
  shows "\<exists>msg. perturb_genes np h adata targ farg copy = (h, Inl (ValueError msg))"
proof -
  have "check_inputs (h ! adata) (norm_target targ) factor \<noteq> None"
    using assms(1,3) by (auto simp: check_inputs_None not_le [symmetric])
  then obtain e where e: "check_inputs (h ! adata) (norm_target targ) factor = Some e"
    by auto
  then obtain msg where "e = ValueError msg"
    using check_inputs_ValueError by blast
  with e show ?thesis
    using perturb_genes_invalid [OF assms(2), of h adata targ e np copy] by simp
qed

theorem perturb_genes_invalid_leaves_store_witness:
  "\<not> distinct [''ENSG00000171532'', ''ENSG00000171532''] \<and>
   (\<exists>msg. perturb_genes NumPy2 [example_adata] 0 (TSeq [''ENSG00000171532'', ''ENSG00000171532''])
             (FSeq [2, 2]) False = ([example_adata], Inl (ValueError msg))) \<and>
   (\<exists>msg. perturb_genes NumPy2 [example_adata] 0 (TSeq [''ENSG00000171532'', ''ENSG00000171532''])
             (FSeq [2, 2]) True = ([example_adata], Inl (ValueError msg)))"
  using perturb_genes_invalid_leaves_store [of "TSeq [''ENSG00000171532'', ''ENSG00000171532'']"
      "[''ENSG00000171532'', ''ENSG00000171532'']" "FSeq [2, 2]" "[2, 2]" "[example_adata]" 0]
  by simp

section \<open>Scalar arguments\<close>

text \<open>
  C5. A single gene identifier is wrapped into a one-element list, and so is a single
  \<^verbatim>\<open>float\<close> factor. A single \<^verbatim>\<open>int\<close> factor is not: the source tests
  \<^verbatim>\<open>isinstance(factor, float)\<close> only, the \<^verbatim>\<open>int\<close> stays a scalar and \<^verbatim>\<open>len(factor)\<close> raises
  \<^verbatim>\<open>TypeError\<close>, although the docstring asks for a positive number and the one-element
  list holding the same number is accepted. On the notebook's matrix, first gene: the
  factor \<open>2\<close> as an \<^verbatim>\<open>int\<close> raises and changes nothing, as a one-element list it doubles
  the column, under either numpy.
\<close>

theorem scalar_int_factor_raises:
  "perturb_genes NumPy1 [example_adata] 0 (TStr ''ENSG00000171532'') (FInt 2) False =
     ([example_adata], Inl TypeError) \<and>
   perturb_genes NumPy2 [example_adata] 0 (TStr ''ENSG00000171532'') (FInt 2) False =
     ([example_adata], Inl TypeError) \<and>
   perturb_genes NumPy1 [example_adata] 0 (TStr ''ENSG00000171532'') (FSeq [2]) False =
     ([\<lparr>var_names = [''ENSG00000171532'', ''ENSG00000078018''],
        X = [[2, 13], [0, 26], [0, 68], [0, 0], [0, 0], [0, 1]], dtype = Float32\<rparr>], Inr None) \<and>
   perturb_genes NumPy2 [example_adata] 0 (TStr ''ENSG00000171532'') (FSeq [2]) False =
     ([\<lparr>var_names = [''ENSG00000171532'', ''ENSG00000078018''],
        X = [[2, 13], [0, 26], [0, 68], [0, 0], [0, 0], [0, 1]], dtype = Float32\<rparr>], Inr None) \<and>
   perturb_genes NumPy2 [example_adata] 0 (TStr ''ENSG00000171532'') (FFloat 2) False =
   perturb_genes NumPy2 [example_adata] 0 (TStr ''ENSG00000171532'') (FSeq [2]) False"
  by code_simp

section \<open>Negative factors and the factor zero\<close>

text \<open>
  C6, as stated, makes the negative-factor error equivalent to the presence of a
  negative factor. Two calls on the notebook's matrix, with the same outcome under
  either numpy, show that neither direction holds without a condition on the other
  checks: with two targets and the single factor \<open>-1\<close>
  the length check fires first and the error is the length message; with a repeated
  target and the factors \<open>1, 1\<close> a \<^verbatim>\<open>ValueError\<close> is raised although no factor is negative.
\<close>

theorem negative_factor_iff_counterexample:
  "(- 1 :: rat) \<in> set [- 1] \<and> (- 1 :: rat) < 0 \<and>
   perturb_genes NumPy1 [example_adata] 0 (TSeq [''ENSG00000171532'', ''ENSG00000078018''])
     (FSeq [- 1]) False = ([example_adata], Inl (ValueError (length_msg 2 1))) \<and>
   perturb_genes NumPy2 [example_adata] 0 (TSeq [''ENSG00000171532'', ''ENSG00000078018''])
     (FSeq [- 1]) False = ([example_adata], Inl (ValueError (length_msg 2 1))) \<and>
   length_msg 2 1 \<noteq> negative_msg \<and>
   \<not> (1 :: rat) < 0 \<and>
   perturb_genes NumPy1 [example_adata] 0 (TSeq [''ENSG00000171532'', ''ENSG00000171532''])
     (FSeq [1, 1]) False = ([example_adata], Inl (ValueError duplicate_msg)) \<and>
   perturb_genes NumPy2 [example_adata] 0 (TSeq [''ENSG00000171532'', ''ENSG00000171532''])
     (FSeq [1, 1]) False = ([example_adata], Inl (ValueError duplicate_msg)) \<and>
   duplicate_msg \<noteq> negative_msg"
  by (simp add: perturb_genes_def check_inputs_def example_adata_def length_msg_def
      negative_msg_def duplicate_msg_def)

text \<open>
  C6, amended. For a request with as many factors as targets and every target a column
  label, the error raised is the negative-factor \<^verbatim>\<open>ValueError\<close> exactly when some factor
  is strictly negative. The factor zero passes the check, and when the targets are also
  distinct and no factor is negative the call succeeds and every entry in the column of
  a target with factor zero is zero.
\<close>

theorem negative_factor_iff_when_earlier_checks_pass:
  assumes "norm_target targ = target" and "norm_factor farg = Inr factor"
    and "length target = length factor"
    and "set target \<subseteq> set (var_names (h ! adata))"
  shows "(snd (perturb_genes np h adata targ farg copy) = Inl (ValueError negative_msg)
            \<longleftrightarrow> (\<exists>f \<in> set factor. f < 0)) \<and>
         (adata < length h \<and> wf_matrix (h ! adata) \<and> distinct target \<and>
          (\<forall>f \<in> set factor. 0 \<le> f) \<and> k < length target \<and> factor ! k = 0 \<and>
          i < length (X (h ! adata)) \<longrightarrow>
            (\<exists>res. worked_on (perturb_genes np h adata targ farg copy) adata = Some res \<and>
               X res ! i ! index_of (var_names (h ! adata)) (target ! k) = 0))"
proof (intro conjI impI)
  show "snd (perturb_genes np h adata targ farg copy) = Inl (ValueError negative_msg)
            \<longleftrightarrow> (\<exists>f \<in> set factor. f < 0)"
  proof (cases "\<exists>f \<in> set factor. f < 0")
    case True
    then have "check_inputs (h ! adata) (norm_target targ) factor = Some (ValueError negative_msg)"
      using check_inputs_negative [OF assms(3,4)] assms(1) by simp
    then have "perturb_genes np h adata targ farg copy = (h, Inl (ValueError negative_msg))"
      by (rule perturb_genes_invalid [OF assms(2)])
    with True show ?thesis by simp
  next
    case False
    then have nn: "\<forall>f \<in> set factor. 0 \<le> f"
      by (auto simp: not_less)
    show ?thesis
    proof (cases "distinct target")
      case True
      then have "check_inputs (h ! adata) (norm_target targ) factor = None"
        using assms(1,3,4) nn by (simp add: check_inputs_None)
      then have "snd (perturb_genes np h adata targ farg copy) \<noteq> Inl (ValueError negative_msg)"
        using perturb_genes_valid [OF assms(2), of h adata targ np copy] by simp
      with False show ?thesis by simp
    next
      case dup: False
      then have "check_inputs (h ! adata) (norm_target targ) factor = Some (ValueError duplicate_msg)"
        using check_inputs_duplicate [OF assms(3,4) nn] assms(1) by simp
      then have "perturb_genes np h adata targ farg copy = (h, Inl (ValueError duplicate_msg))"
        by (rule perturb_genes_invalid [OF assms(2)])
      moreover have "duplicate_msg \<noteq> negative_msg"
        using msgs_distinct [of 0 0 "[]" "[]"] by auto
      ultimately show ?thesis
        using False by simp
    qed
  qed
next
  assume a: "adata < length h \<and> wf_matrix (h ! adata) \<and> distinct target \<and>
          (\<forall>f \<in> set factor. 0 \<le> f) \<and> k < length target \<and> factor ! k = 0 \<and>
          i < length (X (h ! adata))"
  let ?res = "perturb_counts np (h ! adata) target factor"
  have ok: "check_inputs (h ! adata) (norm_target targ) factor = None"
    using assms(1,3,4) a by (simp add: check_inputs_None)
  have w: "worked_on (perturb_genes np h adata targ farg copy) adata = Some ?res"
    using worked_on_valid [OF assms(2) ok] a assms(1) by simp
  have "X ?res ! i ! index_of (var_names (h ! adata)) (target ! k) =
        stored np (dtype (h ! adata)) (length factor)
          (X (h ! adata) ! i ! index_of (var_names (h ! adata)) (target ! k)) (factor ! k)"
    using a by (intro perturb_counts_target assms(3,4)) simp_all
  then have "X ?res ! i ! index_of (var_names (h ! adata)) (target ! k) = 0"
    using a by (simp add: stored_zero)
  with w show "\<exists>res. worked_on (perturb_genes np h adata targ farg copy) adata = Some res \<and>
               X res ! i ! index_of (var_names (h ! adata)) (target ! k) = 0"
    by blast
qed

theorem negative_factor_iff_when_earlier_checks_pass_witness:
  "X example_adata ! 1 ! 1 = 26 \<and>
   (\<exists>res. worked_on (perturb_genes NumPy2 [example_adata] 0
             (TSeq [''ENSG00000171532'', ''ENSG00000078018'']) (FSeq [2, 0]) False) 0
           = Some res \<and> X res ! 1 ! 1 = 0) \<and>
   snd (perturb_genes NumPy2 [example_adata] 0
             (TSeq [''ENSG00000171532'', ''ENSG00000078018'']) (FSeq [2, 0]) False)
     \<noteq> Inl (ValueError negative_msg)"
proof -
  have v: "set [''ENSG00000171532'', ''ENSG00000078018''] \<subseteq> set (var_names ([example_adata] ! 0))"
    by (simp add: example_adata_def)
  have w: "wf_matrix ([example_adata] ! 0)"
    by (simp add: wf_example)
  have j: "index_of (var_names ([example_adata] ! 0)) ([''ENSG00000171532'', ''ENSG00000078018''] ! 1) = 1"
    by (simp add: example_adata_def)
  have x: "X example_adata ! 1 ! 1 = 26" "length (X ([example_adata] ! 0)) = 6"
    by (simp_all add: example_adata_def)
  show ?thesis
    using negative_factor_iff_when_earlier_checks_pass [OF _ _ _ v,
        of "TSeq [''ENSG00000171532'', ''ENSG00000078018'']" "FSeq [2, 0]" "[2, 0]" NumPy2 False 1 1]
      w x
    unfolding j by simp
qed

section \<open>The not-found message\<close>

text \<open>
  C7. With as many factors as targets and at least one target that is not a column
  label, the call raises the not-found \<^verbatim>\<open>ValueError\<close>. Its message interpolates two
  lists: the targets that are not column labels, all of them and no others, and the
  first three column labels (all of them when there are fewer). The message is kept as
  the pieces of the f-string, so an identifier appears in it as Python prints a list of
  strings.
\<close>

theorem perturb_genes_unknown_target_message:
  assumes "norm_target targ = target" and "norm_factor farg = Inr factor"
    and "length target = length factor"
    and "\<not> set target \<subseteq> set (var_names (h ! adata))"
  shows "\<exists>msg missing_genes.
           perturb_genes np h adata targ farg copy = (h, Inl (ValueError msg)) \<and>
           msg = missing_msg missing_genes (take 3 (var_names (h ! adata))) \<and>
           Names missing_genes \<in> set msg \<and>
           Names (take 3 (var_names (h ! adata))) \<in> set msg \<and>
           missing_genes \<noteq> [] \<and>
           set missing_genes = {t \<in> set target. t \<notin> set (var_names (h ! adata))}"
proof -
  let ?missing = "filter (\<lambda>t. t \<notin> set (var_names (h ! adata))) target"
  let ?msg = "missing_msg ?missing (take 3 (var_names (h ! adata)))"
  have "check_inputs (h ! adata) (norm_target targ) factor = Some (ValueError ?msg)"
    using check_inputs_missing [OF assms(3,4)] assms(1) by simp
  then have "perturb_genes np h adata targ farg copy = (h, Inl (ValueError ?msg))"
    by (rule perturb_genes_invalid [OF assms(2)])
  moreover have "Names ?missing \<in> set ?msg" and "Names (take 3 (var_names (h ! adata))) \<in> set ?msg"
    by (simp_all add: missing_msg_def)
  moreover have "?missing \<noteq> []"
    using assms(4) by (auto simp: filter_empty_conv)
  moreover have "set ?missing = {t \<in> set target. t \<notin> set (var_names (h ! adata))}"
    by simp
  ultimately show ?thesis
    by blast
qed

theorem perturb_genes_unknown_target_message_witness:
  "\<exists>msg missing_genes.
     perturb_genes NumPy2 [example_adata] 0 (TSeq [''ENSG00000171532'', ''FOO'', ''BAR''])
       (FSeq [2, 2, 2]) False = ([example_adata], Inl (ValueError msg)) \<and>
     Names missing_genes \<in> set msg \<and>
     Names [''ENSG00000171532'', ''ENSG00000078018''] \<in> set msg \<and>
     set missing_genes = {''FOO'', ''BAR''}"
proof -
  have a: "\<not> set [''ENSG00000171532'', ''FOO'', ''BAR''] \<subseteq> set (var_names ([example_adata] ! 0))"
    by (simp add: example_adata_def)
  have b: "{t \<in> set [''ENSG00000171532'', ''FOO'', ''BAR'']. t \<notin> set (var_names ([example_adata] ! 0))}
             = {''FOO'', ''BAR''}"
    by (auto simp: example_adata_def)
  have c: "take 3 (var_names ([example_adata] ! 0)) = [''ENSG00000171532'', ''ENSG00000078018'']"
    by (simp add: example_adata_def)
  show ?thesis
    using perturb_genes_unknown_target_message [OF _ _ _ a,
      of "TSeq [''ENSG00000171532'', ''FOO'', ''BAR'']" "FSeq [2, 2, 2]" "[2, 2, 2]" NumPy2 False]
    unfolding b c by simp blast
qed

section \<open>Order of the checks\<close>

text \<open>
  C8. The checks run in the order length mismatch, unknown target, negative factor,
  duplicate target, and the first one violated decides the error: a length mismatch
  gives the length message whatever else is wrong; with equal lengths an unknown target
  gives the not-found message; with equal lengths and known targets a negative factor
  gives the negative-factor message; the duplicate message appears only when the three
  earlier checks pass. The four messages are pairwise different, so the message
  identifies the check. All four are raised as \<^verbatim>\<open>ValueError\<close>.
\<close>

theorem perturb_genes_check_order:
  assumes "norm_target targ = target" and "norm_factor farg = Inr factor"
  shows "(length target \<noteq> length factor \<longrightarrow>
            perturb_genes np h adata targ farg copy =
              (h, Inl (ValueError (length_msg (length target) (length factor))))) \<and>
         (length target = length factor \<and> \<not> set target \<subseteq> set (var_names (h ! adata)) \<longrightarrow>
            perturb_genes np h adata targ farg copy =
              (h, Inl (ValueError
                (missing_msg (filter (\<lambda>t. t \<notin> set (var_names (h ! adata))) target)
                   (take 3 (var_names (h ! adata))))))) \<and>
         (length target = length factor \<and> set target \<subseteq> set (var_names (h ! adata)) \<and>
          (\<exists>f \<in> set factor. f < 0) \<longrightarrow>
            perturb_genes np h adata targ farg copy = (h, Inl (ValueError negative_msg))) \<and>
         (length target = length factor \<and> set target \<subseteq> set (var_names (h ! adata)) \<and>
          (\<forall>f \<in> set factor. 0 \<le> f) \<and> \<not> distinct target \<longrightarrow>
            perturb_genes np h adata targ farg copy = (h, Inl (ValueError duplicate_msg))) \<and>
         distinct [length_msg n m, missing_msg ms ex, negative_msg, duplicate_msg]"
proof -
  note raise = perturb_genes_invalid [OF assms(2), of h adata targ _ np copy]
  let ?a = "h ! adata"
  have 1: "length target \<noteq> length factor \<longrightarrow>
            perturb_genes np h adata targ farg copy =
              (h, Inl (ValueError (length_msg (length target) (length factor))))"
  proof
    assume "length target \<noteq> length factor"
    then have "check_inputs ?a (norm_target targ) factor =
        Some (ValueError (length_msg (length target) (length factor)))"
      using check_inputs_length [of target factor ?a] assms(1) by simp
    then show "perturb_genes np h adata targ farg copy =
              (h, Inl (ValueError (length_msg (length target) (length factor))))"
      by (rule raise)
  qed
  have 2: "length target = length factor \<and> \<not> set target \<subseteq> set (var_names ?a) \<longrightarrow>
            perturb_genes np h adata targ farg copy =
              (h, Inl (ValueError
                (missing_msg (filter (\<lambda>t. t \<notin> set (var_names ?a)) target)
                   (take 3 (var_names ?a)))))"
  proof
    assume "length target = length factor \<and> \<not> set target \<subseteq> set (var_names ?a)"
    then have "check_inputs ?a (norm_target targ) factor =
        Some (ValueError (missing_msg (filter (\<lambda>t. t \<notin> set (var_names ?a)) target)
                   (take 3 (var_names ?a))))"
      using check_inputs_missing [of target factor ?a] assms(1) by simp
    then show "perturb_genes np h adata targ farg copy =
              (h, Inl (ValueError
                (missing_msg (filter (\<lambda>t. t \<notin> set (var_names ?a)) target)
                   (take 3 (var_names ?a)))))"
      by (rule raise)
  qed
  have 3: "length target = length factor \<and> set target \<subseteq> set (var_names ?a) \<and>
          (\<exists>f \<in> set factor. f < 0) \<longrightarrow>
            perturb_genes np h adata targ farg copy = (h, Inl (ValueError negative_msg))"
  proof
    assume "length target = length factor \<and> set target \<subseteq> set (var_names ?a) \<and>
          (\<exists>f \<in> set factor. f < 0)"
    then have "check_inputs ?a (norm_target targ) factor = Some (ValueError negative_msg)"
      using check_inputs_negative [of target factor ?a] assms(1) by simp
    then show "perturb_genes np h adata targ farg copy = (h, Inl (ValueError negative_msg))"
      by (rule raise)
  qed
  have 4: "length target = length factor \<and> set target \<subseteq> set (var_names ?a) \<and>
          (\<forall>f \<in> set factor. 0 \<le> f) \<and> \<not> distinct target \<longrightarrow>
            perturb_genes np h adata targ farg copy = (h, Inl (ValueError duplicate_msg))"
  proof
    assume "length target = length factor \<and> set target \<subseteq> set (var_names ?a) \<and>
          (\<forall>f \<in> set factor. 0 \<le> f) \<and> \<not> distinct target"
    then have "check_inputs ?a (norm_target targ) factor = Some (ValueError duplicate_msg)"
      using check_inputs_duplicate [of target factor ?a] assms(1) by simp
    then show "perturb_genes np h adata targ farg copy = (h, Inl (ValueError duplicate_msg))"
      by (rule raise)
  qed
  from 1 2 3 4 msgs_distinct [of n m ms ex] show ?thesis
    by (intro conjI)
qed

theorem perturb_genes_check_order_witness:
  "\<not> distinct [''ENSG00000171532'', ''ENSG00000171532''] \<and> (\<exists>f \<in> set [2, - 1 :: rat]. f < 0) \<and>
   perturb_genes NumPy2 [example_adata] 0 (TSeq [''ENSG00000171532'', ''ENSG00000171532''])
     (FSeq [2, - 1]) False = ([example_adata], Inl (ValueError negative_msg)) \<and>
   negative_msg \<noteq> duplicate_msg"
  using perturb_genes_check_order [of "TSeq [''ENSG00000171532'', ''ENSG00000171532'']"
      "[''ENSG00000171532'', ''ENSG00000171532'']" "FSeq [2, - 1]" "[2, - 1]"
      NumPy2 "[example_adata]" 0 False 0 0 "[]" "[]"]
  by (simp add: example_adata_def)

section \<open>Counts stay non-negative\<close>

text \<open>
  C9. When every entry of the matrix is non-negative and the request is valid, every
  entry of the matrix the call produced or mutated is non-negative.
\<close>

theorem perturb_genes_keeps_counts_nonnegative:
  assumes "adata < length h" and "wf_matrix (h ! adata)"
    and "norm_target targ = target" and "norm_factor farg = Inr factor"
    and "length target = length factor"
    and "set target \<subseteq> set (var_names (h ! adata))"
    and "\<forall>f \<in> set factor. 0 \<le> f"
    and "distinct target"
    and "\<forall>row \<in> set (X (h ! adata)). \<forall>v \<in> set row. 0 \<le> v"
  shows "\<exists>res. worked_on (perturb_genes np h adata targ farg copy) adata = Some res \<and>
           (\<forall>row \<in> set (X res). \<forall>v \<in> set row. 0 \<le> v)"
proof -
  let ?a = "h ! adata"
  let ?res = "perturb_counts np ?a target factor"
  have ok: "check_inputs ?a (norm_target targ) factor = None"
    using assms(3,5-8) by (simp add: check_inputs_None)
  have w: "worked_on (perturb_genes np h adata targ farg copy) adata = Some ?res"
    using worked_on_valid [OF assms(4) ok assms(1)] assms(3) by simp
  have "0 \<le> X ?res ! i ! j" if i: "i < length (X ?res)" and j: "j < length (X ?res ! i)" for i j
  proof -
    have i': "i < length (X ?a)"
      using i by simp
    then have j': "j < length (var_names ?a)"
      using j assms(2) by (simp add: length_row_perturb_counts wf_matrix_row)
    then have "j < length (X ?a ! i)"
      using i' assms(2) by (simp add: wf_matrix_row)
    then have x: "0 \<le> X ?a ! i ! j"
      using assms(9) i' by (meson nth_mem)
    show ?thesis
    proof (cases "var_names ?a ! j \<in> set target")
      case True
      then have "index_of target (var_names ?a ! j) < length factor"
        using assms(5) index_of_less [of "var_names ?a ! j" target] by simp
      then have "0 \<le> factor ! index_of target (var_names ?a ! j)"
        using assms(7) by (meson nth_mem)
      with x True show ?thesis
        by (simp add: perturb_counts_entry [OF assms(2,5,6,8) i' j'] stored_nonneg)
    next
      case False
      with x show ?thesis
        by (simp add: perturb_counts_entry [OF assms(2,5,6,8) i' j'])
    qed
  qed
  then have "\<forall>row \<in> set (X ?res). \<forall>v \<in> set row. 0 \<le> v"
    by (metis in_set_conv_nth)
  with w show ?thesis by blast
qed

theorem perturb_genes_keeps_counts_nonnegative_witness:
  "list_all (list_all (\<lambda>v. 0 \<le> v)) (X example_adata) \<and>
   (\<exists>res. worked_on (perturb_genes NumPy2 [example_adata] 0
             (TSeq [''ENSG00000171532'', ''ENSG00000078018'']) (FSeq [2, 1 / 2]) False) 0
           = Some res \<and>
          list_all (list_all (\<lambda>v. 0 \<le> v)) (X res))"
proof -
  have p: "\<forall>row \<in> set (X ([example_adata] ! 0)). \<forall>v \<in> set row. 0 \<le> v"
    by (simp add: example_adata_def)
  have w: "wf_matrix ([example_adata] ! 0)"
    by (simp add: wf_example)
  have v: "set [''ENSG00000171532'', ''ENSG00000078018''] \<subseteq> set (var_names ([example_adata] ! 0))"
    by (simp add: example_adata_def)
  have "\<exists>res. worked_on (perturb_genes NumPy2 [example_adata] 0
             (TSeq [''ENSG00000171532'', ''ENSG00000078018'']) (FSeq [2, 1 / 2]) False) 0
           = Some res \<and>
          (\<forall>row \<in> set (X res). \<forall>v \<in> set row. 0 \<le> v)"
    using perturb_genes_keeps_counts_nonnegative [OF _ w _ _ _ v _ _ p,
        of "TSeq [''ENSG00000171532'', ''ENSG00000078018'']" "FSeq [2, 1 / 2]" "[2, 1 / 2]" NumPy2 False]
    by simp
  moreover have "list_all (list_all (\<lambda>v. 0 \<le> v)) (X example_adata)"
    by (simp add: example_adata_def)
  ultimately show ?thesis
    by (simp add: list_all_iff)
qed

section \<open>The factor one\<close>

text \<open>
  C10. When every entry of the matrix is an integer and every factor of a valid request
  is one, the matrix the call worked on is equal to the original, and the call in place
  leaves the whole store as it was.
\<close>

theorem perturb_genes_factor_one_identity:
  assumes "adata < length h" and "wf_matrix (h ! adata)"
    and "norm_target targ = target" and "norm_factor farg = Inr factor"
    and "length target = length factor"
    and "set target \<subseteq> set (var_names (h ! adata))"
    and "distinct target"
    and "\<forall>f \<in> set factor. f = 1"
    and "\<forall>row \<in> set (X (h ! adata)). \<forall>v \<in> set row. v \<in> \<int>"
  shows "worked_on (perturb_genes np h adata targ farg copy) adata = Some (h ! adata) \<and>
         fst (perturb_genes np h adata targ farg False) = h"
proof -
  have id: "perturb_counts np (h ! adata) target factor = h ! adata"
    using assms(2,5,6,7,8,9) by (rule perturb_counts_identity)
  have "\<forall>f \<in> set factor. 0 \<le> f"
    using assms(8) by auto
  then have ok: "check_inputs (h ! adata) (norm_target targ) factor = None"
    using assms(3,5-7) by (simp add: check_inputs_None)
  have "worked_on (perturb_genes np h adata targ farg copy) adata = Some (h ! adata)"
    using worked_on_valid [OF assms(4) ok assms(1)] assms(3) id by simp
  moreover have "fst (perturb_genes np h adata targ farg False) = h"
    using perturb_genes_valid [OF assms(4) ok, of np False] assms(3) id by simp
  ultimately show ?thesis ..
qed

theorem perturb_genes_factor_one_identity_witness:
  "worked_on (perturb_genes NumPy2 [example_adata] 0
      (TSeq [''ENSG00000171532'', ''ENSG00000078018'']) (FSeq [1, 1]) True) 0
     = Some example_adata \<and>
   fst (perturb_genes NumPy2 [example_adata] 0
      (TSeq [''ENSG00000171532'', ''ENSG00000078018'']) (FSeq [1, 1]) False) = [example_adata]"
proof -
  have p: "\<forall>row \<in> set (X ([example_adata] ! 0)). \<forall>v \<in> set row. v \<in> \<int>"
    by (simp add: example_adata_def)
  have w: "wf_matrix ([example_adata] ! 0)"
    by (simp add: wf_example)
  have v: "set [''ENSG00000171532'', ''ENSG00000078018''] \<subseteq> set (var_names ([example_adata] ! 0))"
    by (simp add: example_adata_def)
  show ?thesis
    using perturb_genes_factor_one_identity [OF _ w _ _ _ v _ _ p,
        of "TSeq [''ENSG00000171532'', ''ENSG00000078018'']" "FSeq [1, 1]" "[1, 1]" NumPy2 True]
    by simp
qed

end
